theory Spec2Isabelle
  imports Complex_Main
begin

section \<open>Reservoir mass balance: the data model\<close>

text \<open>
  The development follows \<^verbatim>\<open>reservoir_mass_balance.py\<close>: the class
  \<^verbatim>\<open>Reservoir\<close> with its constructor, \<^verbatim>\<open>calculate_area\<close> and
  \<^verbatim>\<open>mass_balance\<close>, and the chain driver \<^verbatim>\<open>run_mass_balance\<close>.

  Numbers. The program computes with IEEE doubles (NumPy \<^verbatim>\<open>float64\<close>). The type
  \<open>float64\<close> below has the finite values, the two infinities and NaN. On finite values
  the arithmetic is exact: rounding and overflow are not modelled. On the special values it
  follows IEEE 754: a comparison with NaN is false, a nonzero finite value divided by zero
  is an infinity, and zero by zero, infinity minus infinity and zero times infinity are NaN.
  NumPy does not raise on any of these. The two zeros are one value. Week numbers are
  Python integers, hence \<^typ>\<open>int\<close>.

  Errors. Every \<^verbatim>\<open>raise\<close> of the source is a value of \<open>error\<close>. Both explicit raises
  are \<^verbatim>\<open>ValueError\<close>; each is preceded by one \<^verbatim>\<open>print\<close>, and the error value carries
  what was printed. \<open>IndexError\<close> is an out-of-range read or write of a series,
  \<open>AssertionError\<close> a failed \<^verbatim>\<open>assert\<close> of the constructor, and \<open>NameError\<close> the read of
  a local variable that was never bound (Python raises \<^verbatim>\<open>UnboundLocalError\<close>, a subclass
  of \<^verbatim>\<open>NameError\<close>).
\<close>

section \<open>Floating-point values\<close>

text \<open>
  A value is finite, plus infinity, minus infinity or NaN. The operations are those that the
  source applies to its numbers: \<^verbatim>\<open>+\<close>, \<^verbatim>\<open>-\<close>, \<^verbatim>\<open>*\<close>, \<^verbatim>\<open>/\<close>, \<^verbatim>\<open><\<close> and
  \<^verbatim>\<open>>\<close>. NaN absorbs every operation and fails every comparison. An infinity absorbs a
  sum with anything but the opposite infinity and a product with anything but zero; a
  finite value divided by an infinity is zero, an infinity divided by an infinity is NaN.
  A division by zero takes the zero as positive, so the quotient has the sign of the
  dividend; the zero divisors of the source are differences \<^verbatim>\<open>s - sm\<close> of equal storages,
  which are positive zeros.
\<close>

datatype float64 = Fin real | PInf | NInf | NaN

fun float_add :: "float64 \<Rightarrow> float64 \<Rightarrow> float64" where
  "float_add NaN y = NaN"
| "float_add x NaN = NaN"
| "float_add (Fin a) (Fin b) = Fin (a + b)"
| "float_add PInf NInf = NaN"
| "float_add NInf PInf = NaN"
| "float_add PInf y = PInf"
| "float_add x PInf = PInf"
| "float_add NInf y = NInf"
| "float_add x NInf = NInf"

fun float_neg :: "float64 \<Rightarrow> float64" where
  "float_neg (Fin a) = Fin (- a)"
| "float_neg PInf = NInf"
| "float_neg NInf = PInf"
| "float_neg NaN = NaN"

fun float_mul :: "float64 \<Rightarrow> float64 \<Rightarrow> float64" where
  "float_mul NaN y = NaN"
| "float_mul x NaN = NaN"
| "float_mul (Fin a) (Fin b) = Fin (a * b)"
| "float_mul PInf (Fin b) = (if b = 0 then NaN else if 0 < b then PInf else NInf)"
| "float_mul NInf (Fin b) = (if b = 0 then NaN else if 0 < b then NInf else PInf)"
| "float_mul (Fin a) PInf = (if a = 0 then NaN else if 0 < a then PInf else NInf)"
| "float_mul (Fin a) NInf = (if a = 0 then NaN else if 0 < a then NInf else PInf)"
| "float_mul PInf PInf = PInf"
| "float_mul PInf NInf = NInf"
| "float_mul NInf PInf = NInf"
| "float_mul NInf NInf = PInf"

fun float_div :: "float64 \<Rightarrow> float64 \<Rightarrow> float64" where
  "float_div NaN y = NaN"
| "float_div x NaN = NaN"
| "float_div (Fin a) (Fin b) =
     (if b = 0 then (if a = 0 then NaN else if 0 < a then PInf else NInf)
      else Fin (a / b))"
| "float_div (Fin a) y = Fin 0"
| "float_div PInf (Fin b) = (if b < 0 then NInf else PInf)"
| "float_div NInf (Fin b) = (if b < 0 then PInf else NInf)"
| "float_div x y = NaN"

fun float_less :: "float64 \<Rightarrow> float64 \<Rightarrow> bool" where
  "float_less NaN y = False"
| "float_less x NaN = False"
| "float_less (Fin a) (Fin b) = (a < b)"
| "float_less x NInf = False"
| "float_less PInf y = False"
| "float_less x y = True"

text \<open>
  The operations under their usual names. Addition is associative, which gives the
  numerals. There is no order structure: \<open>x \<le> y\<close> is \<open>x < y\<close> or \<open>x = y\<close> with \<open>x\<close> not NaN,
  and it is not reflexive.
\<close>

instantiation float64 :: semigroup_add
begin

definition plus_float64 :: "float64 \<Rightarrow> float64 \<Rightarrow> float64" where
  "plus_float64 x y = float_add x y"

instance
proof
  fix a b c :: float64
  show "a + b + c = a + (b + c)"
    by (cases a; cases b; cases c) (simp_all add: plus_float64_def)
qed

end

instantiation float64 :: "{zero, one, uminus, minus, times, inverse, ord}"
begin

definition zero_float64 :: float64 where
  "zero_float64 = Fin 0"

definition one_float64 :: float64 where
  "one_float64 = Fin 1"

definition uminus_float64 :: "float64 \<Rightarrow> float64" where
  "uminus_float64 x = float_neg x"

definition minus_float64 :: "float64 \<Rightarrow> float64 \<Rightarrow> float64" where
  "minus_float64 x y = float_add x (float_neg y)"

definition times_float64 :: "float64 \<Rightarrow> float64 \<Rightarrow> float64" where
  "times_float64 x y = float_mul x y"

definition divide_float64 :: "float64 \<Rightarrow> float64 \<Rightarrow> float64" where
  "divide_float64 x y = float_div x y"

definition inverse_float64 :: "float64 \<Rightarrow> float64" where
  "inverse_float64 x = float_div (Fin 1) x"

definition less_float64 :: "float64 \<Rightarrow> float64 \<Rightarrow> bool" where
  "less_float64 x y = float_less x y"

definition less_eq_float64 :: "float64 \<Rightarrow> float64 \<Rightarrow> bool" where
  "less_eq_float64 x y \<longleftrightarrow> float_less x y \<or> (x = y \<and> x \<noteq> NaN)"

instance ..

end

instance float64 :: numeral ..

instance float64 :: power ..

section \<open>Errors\<close>

datatype message =
    Storage_Above_Capacity float64 float64
  | Week_Too_Small int

datatype error =
    ValueError message
  | IndexError
  | AssertionError
  | NameError

text \<open>
  The storage-area curve is a matrix with a row of storages and a row of areas. The fields
  of the record are the attributes of the class.
\<close>

type_synonym curve = "float64 list \<times> float64 list"

record reservoir =
  capacity :: float64
  storage_area_curve :: curve
  evaporation_series :: "float64 list"
  inflow_series :: "float64 list"
  demand_series :: "float64 list"
  stored_volume :: "float64 list"

text \<open>The transposed curve: one (storage, area) row per breakpoint.\<close>

definition transposed :: "curve \<Rightarrow> (float64 \<times> float64) list" where
  "transposed c = zip (fst c) (snd c)"

section \<open>The constructor\<close>

text \<open>
  \<^verbatim>\<open>__init__\<close> asserts that the two rows have one length (the first assertion, on the number
  of rows, holds by the type), reads the capacity as the last storage of the curve, which
  fails with \<open>IndexError\<close> on an empty row, and fills the stored-volume series, one entry per
  demand, with the capacity.
\<close>

definition Reservoir_init ::
  "curve \<Rightarrow> float64 list \<Rightarrow> float64 list \<Rightarrow> float64 list \<Rightarrow> error + reservoir" where
  "Reservoir_init curve evaporations inflows demands =
     (if length (fst curve) \<noteq> length (snd curve) then Inl AssertionError
      else if fst curve = [] then Inl IndexError
      else
        let cap = last (fst curve);
            n_weeks = length demands
        in Inr \<lparr>capacity = cap,
                storage_area_curve = curve,
                evaporation_series = evaporations,
                inflow_series = inflows,
                demand_series = demands,
                stored_volume = replicate n_weeks cap\<rparr>)"

section \<open>The area lookup\<close>

text \<open>
  The loop of \<^verbatim>\<open>calculate_area\<close> runs over the rows \<open>1, 2, ...\<close> of the transposed
  curve. In \<open>area_search (sm, am) rows v a\<close> the pair \<open>(sm, am)\<close> is row \<open>i - 1\<close>, \<open>rows\<close>
  are the rows from \<open>i\<close> on, and \<open>a\<close> is the binding of the local variable \<^verbatim>\<open>a\<close>:
  \<open>None\<close> until the loop body has run once. The \<^verbatim>\<open>return a\<close> after the loop reads it,
  and fails when the loop has not run at all. The comparison with the storage of the row
  is strict. Where the two storages of a segment coincide the formula divides by zero and
  its value, an infinity or NaN, is returned like any other.
\<close>

fun area_search ::
  "float64 \<times> float64 \<Rightarrow> (float64 \<times> float64) list \<Rightarrow> float64 \<Rightarrow> float64 option \<Rightarrow> error + float64" where
  "area_search (sm, am) [] v bound =
     (case bound of None \<Rightarrow> Inl NameError | Some a \<Rightarrow> Inr a)"
| "area_search (sm, am) ((s, a) # rows) v bound =
     (if v < s then Inr (am + (v - sm) / (s - sm) * (a - am))
      else area_search (s, a) rows v (Some a))"

definition calculate_area :: "reservoir \<Rightarrow> float64 \<Rightarrow> error + float64" where
  "calculate_area r v =
     (if v > capacity r then Inl (ValueError (Storage_Above_Capacity v (capacity r)))
      else case transposed (storage_area_curve r) of
             [] \<Rightarrow> Inl NameError
           | row0 # rows \<Rightarrow> area_search row0 rows v None)"

section \<open>The mass-balance step\<close>

text \<open>
  \<^verbatim>\<open>mass_balance\<close> returns the reservoir after the call together with the outcome: the
  error raised, or the pair (release, unfulfilled demand). The reads happen in the order of
  the source: the evaporation rate of the week, the stored volume of the week before, the
  area lookup, the inflow, the demand; the only write is the last statement before the
  return.
\<close>

definition mass_balance ::
  "reservoir \<Rightarrow> float64 \<Rightarrow> int \<Rightarrow> reservoir \<times> (error + float64 \<times> float64)" where
  "mass_balance r upstream_flow week =
     (if week < 1 then (r, Inl (ValueError (Week_Too_Small week)))
      else
        let w = nat week in
        if length (evaporation_series r) \<le> w then (r, Inl IndexError)
        else if length (stored_volume r) \<le> w - 1 then (r, Inl IndexError)
        else case calculate_area r (stored_volume r ! (w - 1)) of
          Inl e \<Rightarrow> (r, Inl e)
        | Inr area \<Rightarrow>
            let evaporation = evaporation_series r ! w * area in
            if length (inflow_series r) \<le> w then (r, Inl IndexError)
            else if length (demand_series r) \<le> w then (r, Inl IndexError)
            else
              let new_stored_volume =
                    stored_volume r ! (w - 1) + upstream_flow + inflow_series r ! w
                      - evaporation - demand_series r ! w;
                  release = 0;
                  unfulfilled_demand = 0;
                  (release, unfulfilled_demand, new_stored_volume) =
                    (if new_stored_volume > capacity r then
                       (new_stored_volume - capacity r, unfulfilled_demand, capacity r)
                     else if new_stored_volume < 0 then
                       (release, - new_stored_volume, 0)
                     else (release, unfulfilled_demand, new_stored_volume))
              in
                if length (stored_volume r) \<le> w then (r, Inl IndexError)
                else (r\<lparr>stored_volume := (stored_volume r)[w := new_stored_volume]\<rparr>,
                      Inr (release, unfulfilled_demand)))"

section \<open>The chain driver\<close>

text \<open>
  The local variables of \<^verbatim>\<open>run_mass_balance\<close>. All three are bound by the first
  statement of the week loop's body and by nothing before it, so the locals of the function
  are a \<open>locals option\<close>: \<open>None\<close> as long as the body has not run.

  The chain is a list of reservoir objects; the model takes them to be distinct objects (a
  list that held one object twice would alias).
\<close>

record locals =
  release :: float64
  unfulfilled_demand :: float64
  total_unfulfilled_demand :: float64

text \<open>The inner loop, over the reservoirs in list order, for one week.\<close>

fun reservoirs_loop ::
  "int \<Rightarrow> reservoir list \<Rightarrow> locals \<Rightarrow> reservoir list \<times> (error + locals)" where
  "reservoirs_loop week [] l = ([], Inr l)"
| "reservoirs_loop week (r # rs) l =
     (case mass_balance r (release l) week of
        (r', Inl e) \<Rightarrow> (r' # rs, Inl e)
      | (r', Inr (rel, ud)) \<Rightarrow>
          (case reservoirs_loop week rs
                  \<lparr>release = rel, unfulfilled_demand = ud,
                   total_unfulfilled_demand = total_unfulfilled_demand l + ud\<rparr> of
             (rs', res) \<Rightarrow> (r' # rs', res)))"

text \<open>The outer loop, over the weeks that \<^verbatim>\<open>range(1, n_weeks)\<close> yields.\<close>

fun weeks_loop ::
  "int list \<Rightarrow> reservoir list \<Rightarrow> locals option \<Rightarrow> reservoir list \<times> (error + locals option)" where
  "weeks_loop [] rs l = (rs, Inr l)"
| "weeks_loop (week # weeks) rs l =
     (case reservoirs_loop week rs
             \<lparr>release = 0, unfulfilled_demand = 0, total_unfulfilled_demand = 0\<rparr> of
        (rs', Inl e) \<Rightarrow> (rs', Inl e)
      | (rs', Inr l') \<Rightarrow> weeks_loop weeks rs' (Some l'))"

text \<open>
  The driver returns nothing; what it reports is what it prints. The outcome is the error
  raised, or \<open>Some x\<close> when the line \<^verbatim>\<open>Total unfulfilled demand of x\<close> was printed and
  \<open>None\<close> when nothing was.
\<close>

definition run_mass_balance ::
  "reservoir list \<Rightarrow> int \<Rightarrow> reservoir list \<times> (error + float64 option)" where
  "run_mass_balance reservoirs n_weeks =
     (case weeks_loop [1..n_weeks - 1] reservoirs None of
        (rs', Inl e) \<Rightarrow> (rs', Inl e)
      | (rs', Inr None) \<Rightarrow> (rs', Inl NameError)
      | (rs', Inr (Some l)) \<Rightarrow>
          (rs', Inr (if unfulfilled_demand l > 0 then Some (unfulfilled_demand l)
                     else None)))"

section \<open>The reservoirs of the examples\<close>

text \<open>
  \<^verbatim>\<open>test_calculate_area\<close> builds its reservoir from the curve with storages
  0, 500, 800, 1000 and areas 0, 400, 600, 900, the evaporation rate 0.05 and the demand 200
  for three weeks, and the inflows 15, 15, 400.
\<close>

definition test_curve :: curve where
  "test_curve = ([0, 500, 800, 1000], [0, 400, 600, 900])"

definition test_reservoir :: reservoir where
  "test_reservoir =
     \<lparr>capacity = 1000,
      storage_area_curve = test_curve,
      evaporation_series = [1 / 20, 1 / 20, 1 / 20],
      inflow_series = [15, 15, 400],
      demand_series = [200, 200, 200],
      stored_volume = [1000, 1000, 1000]\<rparr>"

text \<open>
  A reservoir on a curve whose first two breakpoints share the storage 5: the one that the
  constructor builds from the storages 5, 5, 3 and the areas 2, 2, 3 with the series of the
  test. Its capacity is 3.
\<close>

definition flat_curve :: curve where
  "flat_curve = ([5, 5, 3], [2, 2, 3])"

definition flat_reservoir :: reservoir where
  "flat_reservoir =
     \<lparr>capacity = 3,
      storage_area_curve = flat_curve,
      evaporation_series = [1 / 20, 1 / 20, 1 / 20],
      inflow_series = [15, 15, 400],
      demand_series = [200, 200, 200],
      stored_volume = [3, 3, 3]\<rparr>"

section \<open>The storage bounds\<close>

text \<open>
  The bounds on the stored volumes: every entry of the series that is a number lies between
  0 and the capacity.
\<close>

definition within_capacity :: "reservoir \<Rightarrow> bool" where
  "within_capacity r \<longleftrightarrow>
     list_all (\<lambda>x. x = NaN \<or> (0 \<le> x \<and> x \<le> capacity r)) (stored_volume r)"

section \<open>Properties\<close>

subsection \<open>Arithmetic of the floating-point values\<close>

lemma numeral_float64: "(numeral k :: float64) = Fin (numeral k)"
proof (induction k)
  case One
  show ?case by (simp add: one_float64_def)
next
  case (Bit0 k)
  have "(numeral (num.Bit0 k) :: float64) = numeral k + numeral k"
    by (simp only: numeral.simps)
  also have "\<dots> = Fin (numeral k + numeral k)"
    by (simp only: Bit0.IH plus_float64_def float_add.simps)
  finally show ?case by (simp add: numeral_Bit0)
next
  case (Bit1 k)
  have "(numeral (num.Bit1 k) :: float64) = numeral k + numeral k + 1"
    by (simp only: numeral.simps)
  also have "\<dots> = Fin (numeral k + numeral k + 1)"
    by (simp only: Bit1.IH plus_float64_def one_float64_def float_add.simps)
  finally show ?case by (simp add: numeral_Bit1)
qed

lemma power_float64: "(Fin a :: float64) ^ n = Fin (a ^ n)"
  by (induction n) (simp_all add: one_float64_def times_float64_def)

lemmas float64_arith =
  zero_float64_def one_float64_def plus_float64_def uminus_float64_def minus_float64_def
  times_float64_def divide_float64_def inverse_float64_def less_float64_def
  less_eq_float64_def numeral_float64 power_float64


lemma float64_less_imp_le: "(x :: float64) < y \<Longrightarrow> x \<le> y"
  by (simp add: float64_arith)

lemma float64_le_refl: "(0 :: float64) \<le> x \<Longrightarrow> x \<le> x"
  by (cases x) (simp_all add: float64_arith)

lemma float64_not_less_bounds:
  assumes "(0 :: float64) \<le> cap" and "\<not> cap < c" and "\<not> c < 0"
  shows "c = NaN \<or> (0 \<le> c \<and> c \<le> cap)"
  using assms by (cases c; cases cap) (auto simp add: float64_arith)

lemma float64_less_NaN: "\<not> (x :: float64) < NaN" "\<not> NaN < (x :: float64)"
  by (cases x; simp add: float64_arith)+



lemma float64_below_capacity: "(v :: float64) < 0 \<Longrightarrow> 0 \<le> cap \<Longrightarrow> \<not> cap < v"
  by (cases v; cases cap) (auto simp add: float64_arith)

lemma float64_less_trans_zero: "(v :: float64) < 0 \<Longrightarrow> 0 < s \<Longrightarrow> v < s"
  by (cases v; cases s) (auto simp add: float64_arith)

subsection \<open>The reservoirs of the examples\<close>

lemma test_reservoir_constructed:
  "Reservoir_init test_curve [1 / 20, 1 / 20, 1 / 20] [15, 15, 400] [200, 200, 200]
     = Inr test_reservoir"
  by (simp add: Reservoir_init_def test_curve_def test_reservoir_def numeral_3_eq_3)

lemma test_reservoir_fields:
  "capacity test_reservoir = 1000"
  "storage_area_curve test_reservoir = test_curve"
  "evaporation_series test_reservoir = [1 / 20, 1 / 20, 1 / 20]"
  "inflow_series test_reservoir = [15, 15, 400]"
  "demand_series test_reservoir = [200, 200, 200]"
  "stored_volume test_reservoir = [1000, 1000, 1000]"
  by (simp_all add: test_reservoir_def)

lemma test_areas:
  "calculate_area test_reservoir 500 = Inr 400"
  "calculate_area test_reservoir 650 = Inr 500"
  "calculate_area test_reservoir 870 = Inr 705"
  "calculate_area test_reservoir 1000 = Inr 900"
  by (simp_all add: calculate_area_def test_reservoir_fields test_curve_def transposed_def
      float64_arith)

lemma flat_reservoir_constructed:
  "Reservoir_init flat_curve [1 / 20, 1 / 20, 1 / 20] [15, 15, 400] [200, 200, 200]
     = Inr flat_reservoir"
  by (simp add: Reservoir_init_def flat_curve_def flat_reservoir_def numeral_3_eq_3)

lemma flat_reservoir_fields:
  "capacity flat_reservoir = 3"
  "storage_area_curve flat_reservoir = flat_curve"
  "evaporation_series flat_reservoir = [1 / 20, 1 / 20, 1 / 20]"
  "inflow_series flat_reservoir = [15, 15, 400]"
  "demand_series flat_reservoir = [200, 200, 200]"
  "stored_volume flat_reservoir = [3, 3, 3]"
  by (simp_all add: flat_reservoir_def)

lemma flat_area: "calculate_area flat_reservoir 3 = Inr NaN"
  by (simp add: calculate_area_def flat_reservoir_fields flat_curve_def transposed_def
      float64_arith)

subsection \<open>The step on a call that gets through\<close>

text \<open>
  When the week is at least 1 and inside all four series and the area lookup at the stored
  volume of the week before returns an area, the call returns, and what it returns and
  writes is decided by the candidate storage alone.
\<close>

lemma mass_balance_success:
  assumes "1 \<le> week"
    and "nat week < length (evaporation_series r)"
    and "nat week < length (inflow_series r)"
    and "nat week < length (demand_series r)"
    and "nat week < length (stored_volume r)"
    and "calculate_area r (stored_volume r ! (nat week - 1)) = Inr area"
    and "candidate = stored_volume r ! (nat week - 1) + upstream_flow
           + inflow_series r ! nat week - evaporation_series r ! nat week * area
           - demand_series r ! nat week"
  shows "mass_balance r upstream_flow week =
     (if candidate > capacity r then
        (r\<lparr>stored_volume := (stored_volume r)[nat week := capacity r]\<rparr>,
         Inr (candidate - capacity r, 0))
      else if candidate < 0 then
        (r\<lparr>stored_volume := (stored_volume r)[nat week := 0]\<rparr>, Inr (0, - candidate))
      else
        (r\<lparr>stored_volume := (stored_volume r)[nat week := candidate]\<rparr>, Inr (0, 0)))"
proof -
  have "\<not> length (stored_volume r) \<le> nat week - 1"
    using assms(5) by arith
  then show ?thesis
    using assms by (simp add: mass_balance_def Let_def)
qed

text \<open>In every other case the call raises, and the reservoir is the one before the call.\<close>

lemma mass_balance_failure:
  assumes "\<not> (1 \<le> week \<and> nat week < length (evaporation_series r) \<and>
              nat week < length (inflow_series r) \<and> nat week < length (demand_series r) \<and>
              nat week < length (stored_volume r))
           \<or> (\<exists>e. calculate_area r (stored_volume r ! (nat week - 1)) = Inl e)"
  shows "\<exists>e. mass_balance r u week = (r, Inl e)"
proof (cases "week < 1")
  case True
  then show ?thesis by (simp add: mass_balance_def)
next
  case w: False
  show ?thesis
  proof (cases "length (evaporation_series r) \<le> nat week")
    case True
    with w show ?thesis by (simp add: mass_balance_def Let_def)
  next
    case ev: False
    show ?thesis
    proof (cases "length (stored_volume r) \<le> nat week - 1")
      case True
      with w ev show ?thesis by (simp add: mass_balance_def Let_def)
    next
      case sv: False
      show ?thesis
      proof (cases "calculate_area r (stored_volume r ! (nat week - 1))")
        case (Inl e)
        with w ev sv show ?thesis by (simp add: mass_balance_def Let_def)
      next
        case (Inr area)
        with assms w ev have "length (inflow_series r) \<le> nat week \<or>
            length (demand_series r) \<le> nat week \<or> length (stored_volume r) \<le> nat week"
          by auto
        with w ev sv Inr show ?thesis
          by (auto simp add: mass_balance_def Let_def split: prod.splits)
      qed
    qed
  qed
qed

text \<open>
  The two cases together: the shape of every call's result. What a returning call writes is
  the capacity, 0, or a candidate that neither comparison of the clamp has caught: NaN or
  a value between 0 and the capacity.
\<close>

lemma mass_balance_shape:
  "(\<exists>e. mass_balance r u week = (r, Inl e)) \<or>
   (1 \<le> week \<and> nat week < length (stored_volume r) \<and>
    (\<exists>x rel ud. mass_balance r u week =
        (r\<lparr>stored_volume := (stored_volume r)[nat week := x]\<rparr>, Inr (rel, ud)) \<and>
      (rel = 0 \<or> ud = 0) \<and>
      (0 \<le> capacity r \<longrightarrow> x = NaN \<or> (0 \<le> x \<and> x \<le> capacity r))))"
proof (cases "1 \<le> week \<and> nat week < length (evaporation_series r) \<and>
              nat week < length (inflow_series r) \<and> nat week < length (demand_series r) \<and>
              nat week < length (stored_volume r)")
  case False
  then show ?thesis using mass_balance_failure [of week r u] by blast
next
  case True
  show ?thesis
  proof (cases "calculate_area r (stored_volume r ! (nat week - 1))")
    case (Inl e)
    then show ?thesis using mass_balance_failure [of week r u] by blast
  next
    case (Inr area)
    define c where "c = stored_volume r ! (nat week - 1) + u
           + inflow_series r ! nat week - evaporation_series r ! nat week * area
           - demand_series r ! nat week"
    have eq: "mass_balance r u week =
     (if c > capacity r then
        (r\<lparr>stored_volume := (stored_volume r)[nat week := capacity r]\<rparr>,
         Inr (c - capacity r, 0))
      else if c < 0 then
        (r\<lparr>stored_volume := (stored_volume r)[nat week := 0]\<rparr>, Inr (0, - c))
      else
        (r\<lparr>stored_volume := (stored_volume r)[nat week := c]\<rparr>, Inr (0, 0)))"
      using mass_balance_success [of week r area c u] True Inr c_def by simp
    have rng: "1 \<le> week \<and> nat week < length (stored_volume r)"
      using True by simp
    consider "c > capacity r" | "\<not> c > capacity r" "c < 0" | "\<not> c > capacity r" "\<not> c < 0"
      by blast
    then have "\<exists>x rel ud. mass_balance r u week =
        (r\<lparr>stored_volume := (stored_volume r)[nat week := x]\<rparr>, Inr (rel, ud)) \<and>
      (rel = 0 \<or> ud = 0) \<and>
      (0 \<le> capacity r \<longrightarrow> x = NaN \<or> (0 \<le> x \<and> x \<le> capacity r))"
    proof cases
      case 1
      with eq have "mass_balance r u week =
        (r\<lparr>stored_volume := (stored_volume r)[nat week := capacity r]\<rparr>,
         Inr (c - capacity r, 0))" by simp
      then show ?thesis
        by (intro exI [of _ "capacity r"] exI [of _ "c - capacity r"] exI [of _ 0])
          (simp add: float64_le_refl)
    next
      case 2
      with eq have "mass_balance r u week =
        (r\<lparr>stored_volume := (stored_volume r)[nat week := 0]\<rparr>, Inr (0, - c))" by simp
      moreover have "(0 :: float64) \<le> 0" by (simp add: float64_arith)
      ultimately show ?thesis
        by (intro exI [of _ 0] exI [of _ "- c"]) simp
    next
      case 3
      with eq have "mass_balance r u week =
        (r\<lparr>stored_volume := (stored_volume r)[nat week := c]\<rparr>, Inr (0, 0))" by simp
      moreover from 3 have "0 \<le> capacity r \<longrightarrow> c = NaN \<or> (0 \<le> c \<and> c \<le> capacity r)"
        using float64_not_less_bounds [of "capacity r" c] by blast
      ultimately show ?thesis
        by (intro exI [of _ c] exI [of _ 0]) simp
    qed
    with rng show ?thesis by blast
  qed
qed

lemma mass_balance_error_unchanged:
  assumes "mass_balance r u week = (r', Inl e)"
  shows "r' = r"
  using mass_balance_shape [of r u week] assms by auto

lemma mass_balance_written:
  assumes "mass_balance r u week = (r', Inr out)"
  shows "1 \<le> week \<and> nat week < length (stored_volume r) \<and>
         r' = r\<lparr>stored_volume := (stored_volume r)[nat week := stored_volume r' ! nat week]\<rparr>"
proof -
  from mass_balance_shape [of r u week] assms
  obtain x where rng: "1 \<le> week" "nat week < length (stored_volume r)"
    and r': "r' = r\<lparr>stored_volume := (stored_volume r)[nat week := x]\<rparr>"
    by auto
  from rng r' have "stored_volume r' ! nat week = x" by simp
  with rng r' show ?thesis by simp
qed

lemma mass_balance_clamped:
  assumes "mass_balance r u week = (r', Inr out)" and "0 \<le> capacity r"
  shows "stored_volume r' ! nat week = NaN \<or>
         (0 \<le> stored_volume r' ! nat week \<and> stored_volume r' ! nat week \<le> capacity r)"
proof -
  from mass_balance_shape [of r u week] assms
  obtain x where rng: "1 \<le> week" "nat week < length (stored_volume r)"
    and r': "r' = r\<lparr>stored_volume := (stored_volume r)[nat week := x]\<rparr>"
    and x: "x = NaN \<or> (0 \<le> x \<and> x \<le> capacity r)"
    by auto
  from rng r' have "stored_volume r' ! nat week = x" by simp
  with x show ?thesis by simp
qed

lemma mass_balance_capacity:
  assumes "mass_balance r u week = (r', out)"
  shows "capacity r' = capacity r"
  using mass_balance_shape [of r u week] assms by auto

lemma mass_balance_exclusive:
  assumes "mass_balance r u week = (r', Inr (rel, ud))"
  shows "rel = 0 \<or> ud = 0"
  using mass_balance_shape [of r u week] assms by auto

text \<open>
  A call that returns has passed every read and the area lookup, so its result is the one
  that the candidate decides.
\<close>

lemma mass_balance_returns:
  assumes "mass_balance r u week = (r', Inr out)"
  obtains area where "1 \<le> week" "nat week < length (evaporation_series r)"
      "nat week < length (inflow_series r)" "nat week < length (demand_series r)"
      "nat week < length (stored_volume r)"
      "calculate_area r (stored_volume r ! (nat week - 1)) = Inr area"
proof -
  have "\<not> (\<exists>e. mass_balance r u week = (r, Inl e))"
    using assms by simp
  with mass_balance_failure [of week r u] that show ?thesis
    by (cases "calculate_area r (stored_volume r ! (nat week - 1))") blast+
qed

text \<open>
  The two steps of \<^verbatim>\<open>test_calculate_area\<close>, with 100 coming from upstream: week 1 releases
  nothing and stores 870, week 2 releases 134.75 and stores 1000, as the test asserts.
\<close>

lemma test_mass_balance_week_1:
  "mass_balance test_reservoir 100 1 =
     (test_reservoir\<lparr>stored_volume := [1000, 870, 1000]\<rparr>, Inr (0, 0))"
  using mass_balance_success [of 1 test_reservoir 900 870 100]
  by (simp add: test_reservoir_fields calculate_area_def test_curve_def transposed_def
      float64_arith)

lemma test_mass_balance_week_2:
  "mass_balance (test_reservoir\<lparr>stored_volume := [1000, 870, 1000]\<rparr>) 100 2 =
     (test_reservoir\<lparr>stored_volume := [1000, 870, 1000]\<rparr>, Inr (134.75, 0))"
  using mass_balance_success
    [of 2 "test_reservoir\<lparr>stored_volume := [1000, 870, 1000]\<rparr>" 705 "1134.75" 100]
  by (simp add: test_reservoir_fields calculate_area_def test_curve_def transposed_def
      float64_arith)

text \<open>
  Two more steps on variants of the test reservoir, both at week 1 with nothing from
  upstream: with the demand 1020 the reservoir is short of 50 and stores 0, with the demand
  1000 it is short of 30.
\<close>

lemma dry_chain_steps:
  "mass_balance (test_reservoir\<lparr>demand_series := [200, 1020, 200]\<rparr>) 0 1 =
     (test_reservoir\<lparr>demand_series := [200, 1020, 200], stored_volume := [1000, 0, 1000]\<rparr>,
      Inr (0, 50))"
  "mass_balance (test_reservoir\<lparr>demand_series := [200, 1000, 200]\<rparr>) 0 1 =
     (test_reservoir\<lparr>demand_series := [200, 1000, 200], stored_volume := [1000, 0, 1000]\<rparr>,
      Inr (0, 30))"
  using mass_balance_success
      [of 1 "test_reservoir\<lparr>demand_series := [200, 1020, 200]\<rparr>" 900 "- 50" 0]
    mass_balance_success
      [of 1 "test_reservoir\<lparr>demand_series := [200, 1000, 200]\<rparr>" 900 "- 30" 0]
  by (simp_all add: test_reservoir_fields calculate_area_def test_curve_def transposed_def
      float64_arith)

subsection \<open>The claims\<close>

text \<open>
  Claim C1, amended. For every reservoir and every week that is at least 1 and inside the
  evaporation, inflow, demand and stored-volume series, and for which the area lookup at
  the stored volume of the week before returns an area, \<^verbatim>\<open>mass_balance\<close> computes the
  candidate \<open>stored_volume[week - 1] + upstream_release + inflow[week] - evaporation -
  demand[week]\<close> and clamps it, in this order: above the capacity it returns the excess as
  release with no unfulfilled demand and stores the capacity; below zero it returns the
  deficit as unfulfilled demand with no release and stores 0; otherwise it returns
  \<open>(0, 0)\<close> and stores the candidate. At most one of release and unfulfilled demand is
  nonzero.
\<close>

theorem mass_balance_clamp_policy:
  assumes "1 \<le> week"
    and "nat week < length (evaporation_series r)"
    and "nat week < length (inflow_series r)"
    and "nat week < length (demand_series r)"
    and "nat week < length (stored_volume r)"
    and "calculate_area r (stored_volume r ! (nat week - 1)) = Inr area"
    and "candidate = stored_volume r ! (nat week - 1) + upstream_release
           + inflow_series r ! nat week - evaporation_series r ! nat week * area
           - demand_series r ! nat week"
  shows "mass_balance r upstream_release week =
     (if candidate > capacity r then
        (r\<lparr>stored_volume := (stored_volume r)[nat week := capacity r]\<rparr>,
         Inr (candidate - capacity r, 0))
      else if candidate < 0 then
        (r\<lparr>stored_volume := (stored_volume r)[nat week := 0]\<rparr>, Inr (0, - candidate))
      else
        (r\<lparr>stored_volume := (stored_volume r)[nat week := candidate]\<rparr>, Inr (0, 0)))
     \<and> (\<forall>r' rel ud. mass_balance r upstream_release week = (r', Inr (rel, ud))
            \<longrightarrow> rel = 0 \<or> ud = 0)"
  using mass_balance_success [OF assms] mass_balance_exclusive [of r upstream_release week]
  by blast

theorem mass_balance_clamp_policy_witness:
  "(1::int) \<le> 2
   \<and> nat 2 < length (evaporation_series (test_reservoir\<lparr>stored_volume := [1000, 870, 1000]\<rparr>))
   \<and> nat 2 < length (inflow_series (test_reservoir\<lparr>stored_volume := [1000, 870, 1000]\<rparr>))
   \<and> nat 2 < length (demand_series (test_reservoir\<lparr>stored_volume := [1000, 870, 1000]\<rparr>))
   \<and> nat 2 < length (stored_volume (test_reservoir\<lparr>stored_volume := [1000, 870, 1000]\<rparr>))
   \<and> calculate_area (test_reservoir\<lparr>stored_volume := [1000, 870, 1000]\<rparr>) 870 = Inr 705
   \<and> mass_balance (test_reservoir\<lparr>stored_volume := [1000, 870, 1000]\<rparr>) 100 2 =
       (test_reservoir\<lparr>stored_volume := [1000, 870, 1000]\<rparr>, Inr (134.75, 0))"
  using mass_balance_clamp_policy
    [of 2 "test_reservoir\<lparr>stored_volume := [1000, 870, 1000]\<rparr>" 705 "1134.75" 100]
  by (simp add: test_reservoir_fields calculate_area_def test_curve_def transposed_def
      float64_arith)

text \<open>
  Claim C1 as stated, for every week from 1 on, fails beyond the series: the test
  reservoir has three weeks, and at week 3 the call raises \<open>IndexError\<close> at the read of
  the evaporation rate, returns no pair and writes nothing.
\<close>

theorem mass_balance_week_beyond_series:
  "(1::int) \<le> 3 \<and> mass_balance test_reservoir 0 3 = (test_reservoir, Inl IndexError)"
  by (simp add: mass_balance_def test_reservoir_fields)



text \<open>
  Claim C3. On a reservoir constructed from the curve with storages 0, 500, 800, 1000 and
  areas 0, 400, 600, 900 the area lookup returns 400 at 500, by the interpolation formula
  of the segment from (500, 400) to (800, 600) with numerator 0; 500 at 650, by the same
  segment; and 900 at 1000, the area of the last breakpoint, which the \<^verbatim>\<open>return\<close> after
  the loop yields.
\<close>

theorem calculate_area_test_curve:
  assumes "Reservoir_init ([0, 500, 800, 1000], [0, 400, 600, 900])
             evaporations inflows demands = Inr r"
  shows "calculate_area r 500 = Inr (400 + (500 - 500) / (800 - 500) * (600 - 400))
       \<and> calculate_area r 500 = Inr 400
       \<and> calculate_area r 650 = Inr (400 + (650 - 500) / (800 - 500) * (600 - 400))
       \<and> calculate_area r 650 = Inr 500
       \<and> calculate_area r 1000 = area_search (1000, 900) [] 1000 (Some 900)
       \<and> calculate_area r 1000 = Inr 900"
proof -
  from assms have "capacity r = 1000"
    and "storage_area_curve r = ([0, 500, 800, 1000], [0, 400, 600, 900])"
    by (auto simp add: Reservoir_init_def Let_def)
  then show ?thesis
    by (simp add: calculate_area_def transposed_def float64_arith)
qed

theorem calculate_area_test_curve_witness:
  "Reservoir_init ([0, 500, 800, 1000], [0, 400, 600, 900])
     [1 / 20, 1 / 20, 1 / 20] [15, 15, 400] [200, 200, 200] = Inr test_reservoir
   \<and> calculate_area test_reservoir 500 = Inr 400
   \<and> calculate_area test_reservoir 650 = Inr 500
   \<and> calculate_area test_reservoir 1000 = Inr 900"
  using calculate_area_test_curve
    [of "[1 / 20, 1 / 20, 1 / 20]" "[15, 15, 400]" "[200, 200, 200]" test_reservoir]
    test_reservoir_constructed
  by (simp add: test_curve_def float64_arith)

text \<open>
  Claim C8. \<^verbatim>\<open>mass_balance\<close> raises its week error for every week below 1, and it does so
  before anything is computed or written: the reservoir after the call is the reservoir
  before it, and no pair is returned.
\<close>

theorem mass_balance_invalid_week:
  assumes "week < 1"
  shows "mass_balance r upstream_flow week = (r, Inl (ValueError (Week_Too_Small week)))"
  using assms by (simp add: mass_balance_def)

theorem mass_balance_invalid_week_witness:
  "(0::int) < 1 \<and>
   mass_balance test_reservoir 0 0 = (test_reservoir, Inl (ValueError (Week_Too_Small 0)))"
  using mass_balance_invalid_week [of 0 test_reservoir 0] by simp

text \<open>
  Claim C9. A call of \<^verbatim>\<open>mass_balance\<close> that returns has written one location, the
  entry of the stored-volume series at the week, and what it has written there is the new
  storage: the capacity when the candidate is above it, 0 when the candidate is below 0,
  the candidate otherwise. The series keeps its length and every other entry, and the
  curve, the capacity and the evaporation, inflow and demand series are the ones before the
  call. What the call returns is the pair of the release, the excess of the candidate over
  the capacity or 0, and the unfulfilled demand, the deficit of the candidate below 0 or 0.
\<close>

theorem mass_balance_single_write:
  assumes "mass_balance r upstream_release week = (r', Inr out)"
  shows "\<exists>area candidate new_storage.
         calculate_area r (stored_volume r ! (nat week - 1)) = Inr area
       \<and> candidate = stored_volume r ! (nat week - 1) + upstream_release
           + inflow_series r ! nat week - evaporation_series r ! nat week * area
           - demand_series r ! nat week
       \<and> new_storage =
           (if candidate > capacity r then capacity r
            else if candidate < 0 then 0 else candidate)
       \<and> out =
           (if candidate > capacity r then candidate - capacity r else 0,
            if candidate > capacity r then 0 else if candidate < 0 then - candidate else 0)
       \<and> 1 \<le> week \<and> nat week < length (stored_volume r)
       \<and> r' = r\<lparr>stored_volume := (stored_volume r)[nat week := new_storage]\<rparr>
       \<and> stored_volume r' ! nat week = new_storage
       \<and> length (stored_volume r') = length (stored_volume r)
       \<and> (\<forall>k. k \<noteq> nat week \<longrightarrow> stored_volume r' ! k = stored_volume r ! k)
       \<and> storage_area_curve r' = storage_area_curve r
       \<and> capacity r' = capacity r
       \<and> evaporation_series r' = evaporation_series r
       \<and> inflow_series r' = inflow_series r
       \<and> demand_series r' = demand_series r"
proof -
  from mass_balance_returns [OF assms]
  obtain area where rng: "1 \<le> week" "nat week < length (evaporation_series r)"
      "nat week < length (inflow_series r)" "nat week < length (demand_series r)"
      "nat week < length (stored_volume r)"
    and area: "calculate_area r (stored_volume r ! (nat week - 1)) = Inr area"
    by blast
  define c where "c = stored_volume r ! (nat week - 1) + upstream_release
           + inflow_series r ! nat week - evaporation_series r ! nat week * area
           - demand_series r ! nat week"
  define s where "s = (if c > capacity r then capacity r else if c < 0 then 0 else c)"
  note eq = mass_balance_success [OF rng area c_def]
  have r': "r' = r\<lparr>stored_volume := (stored_volume r)[nat week := s]\<rparr>"
    and out: "out =
           (if c > capacity r then c - capacity r else 0,
            if c > capacity r then 0 else if c < 0 then - c else 0)"
    using eq assms by (cases "c > capacity r"; cases "c < 0"; simp add: s_def)+
  have "stored_volume r' ! nat week = s"
    and "length (stored_volume r') = length (stored_volume r)"
    and "\<forall>k. k \<noteq> nat week \<longrightarrow> stored_volume r' ! k = stored_volume r ! k"
    and "storage_area_curve r' = storage_area_curve r"
    and "capacity r' = capacity r"
    and "evaporation_series r' = evaporation_series r"
    and "inflow_series r' = inflow_series r"
    and "demand_series r' = demand_series r"
    using rng(5) by (simp_all add: r')
  with area c_def s_def out rng(1,5) r' show ?thesis
    by (intro exI [of _ area] exI [of _ c] exI [of _ s] conjI) assumption+
qed

theorem mass_balance_single_write_witness:
  "mass_balance (test_reservoir\<lparr>demand_series := [200, 1020, 200]\<rparr>) 0 1 =
     (test_reservoir\<lparr>demand_series := [200, 1020, 200], stored_volume := [1000, 0, 1000]\<rparr>,
      Inr (0, 50))
   \<and> calculate_area (test_reservoir\<lparr>demand_series := [200, 1020, 200]\<rparr>) 1000 = Inr 900
   \<and> stored_volume
        (test_reservoir\<lparr>demand_series := [200, 1020, 200], stored_volume := [1000, 0, 1000]\<rparr>)
        ! 1 = 0
   \<and> stored_volume
        (test_reservoir\<lparr>demand_series := [200, 1020, 200], stored_volume := [1000, 0, 1000]\<rparr>)
        ! 0 = stored_volume (test_reservoir\<lparr>demand_series := [200, 1020, 200]\<rparr>) ! 0
   \<and> stored_volume
        (test_reservoir\<lparr>demand_series := [200, 1020, 200], stored_volume := [1000, 0, 1000]\<rparr>)
        ! 2 = stored_volume (test_reservoir\<lparr>demand_series := [200, 1020, 200]\<rparr>) ! 2
   \<and> capacity
        (test_reservoir\<lparr>demand_series := [200, 1020, 200], stored_volume := [1000, 0, 1000]\<rparr>)
       = capacity (test_reservoir\<lparr>demand_series := [200, 1020, 200]\<rparr>)"
  using mass_balance_single_write
    [of "test_reservoir\<lparr>demand_series := [200, 1020, 200]\<rparr>" 0 1
        "test_reservoir\<lparr>demand_series := [200, 1020, 200],
                        stored_volume := [1000, 0, 1000]\<rparr>" "(0, 50)"]
    dry_chain_steps(1)
  by (simp add: test_reservoir_fields calculate_area_def test_curve_def transposed_def
      float64_arith)

text \<open>
  Claim C10. With a week count of at most 1 the driver is not a no-op: the body of the week
  loop never runs, the test after the loop reads \<^verbatim>\<open>unfulfilled_demand\<close>, which only the
  body binds, and the call ends in a \<open>NameError\<close>, whatever the list of reservoirs; the
  reservoirs are untouched.
\<close>

theorem run_mass_balance_degenerate:
  assumes "n_weeks \<le> 1"
  shows "run_mass_balance reservoirs n_weeks = (reservoirs, Inl NameError)"
  using assms by (simp add: run_mass_balance_def)

theorem run_mass_balance_degenerate_witness:
  "(1::int) \<le> 1
   \<and> run_mass_balance [test_reservoir] 1 = ([test_reservoir], Inl NameError)
   \<and> (0::int) \<le> 1
   \<and> run_mass_balance [] 0 = ([], Inl NameError)"
  using run_mass_balance_degenerate [of 1 "[test_reservoir]"]
    run_mass_balance_degenerate [of 0 "[]"]
  by simp

section \<open>The area lookup and its error\<close>

lemma area_search_no_ValueError:
  "area_search p rows v bound \<noteq> Inl (ValueError m)"
  by (induction p rows v bound rule: area_search.induct) (auto split: option.splits)

lemma calculate_area_ValueError_iff:
  "(\<exists>m. calculate_area r v = Inl (ValueError m)) \<longleftrightarrow> capacity r < v"
  by (auto simp add: calculate_area_def area_search_no_ValueError split: list.splits)

lemma calculate_area_first_segment:
  assumes "v < s1" and "\<not> capacity r < v"
    and "storage_area_curve r = (s0 # s1 # ss, a0 # a1 # as)"
  shows "calculate_area r v = Inr (a0 + (v - s0) / (s1 - s0) * (a1 - a0))"
  using assms by (simp add: calculate_area_def transposed_def)

text \<open>
  Claim C7. The area lookup raises its \<^verbatim>\<open>ValueError\<close> when the storage is above the
  capacity and on no other input. A negative storage is not rejected: on a curve that
  starts at storage 0 and goes on to a larger storage, in a reservoir of capacity at least
  0, the lookup returns the value of the first segment's interpolation formula, taken
  outside the segment.
\<close>

theorem calculate_area_out_of_range:
  "((\<exists>m. calculate_area r v = Inl (ValueError m)) \<longleftrightarrow> capacity r < v)
   \<and> (capacity r < v \<longrightarrow>
        calculate_area r v = Inl (ValueError (Storage_Above_Capacity v (capacity r))))
   \<and> (v < 0 \<and> 0 \<le> capacity r \<and> 0 < s1 \<and>
        storage_area_curve r = (0 # s1 # ss, a0 # a1 # as) \<longrightarrow>
        calculate_area r v = Inr (a0 + (v - 0) / (s1 - 0) * (a1 - a0)))"
proof (intro conjI impI)
  show "(\<exists>m. calculate_area r v = Inl (ValueError m)) \<longleftrightarrow> capacity r < v"
    by (rule calculate_area_ValueError_iff)
next
  assume "capacity r < v"
  then show "calculate_area r v = Inl (ValueError (Storage_Above_Capacity v (capacity r)))"
    by (simp add: calculate_area_def)
next
  assume a: "v < 0 \<and> 0 \<le> capacity r \<and> 0 < s1 \<and>
        storage_area_curve r = (0 # s1 # ss, a0 # a1 # as)"
  then have "v < s1" and "\<not> capacity r < v"
    using float64_less_trans_zero [of v s1] float64_below_capacity [of v "capacity r"]
    by simp_all
  with a show "calculate_area r v = Inr (a0 + (v - 0) / (s1 - 0) * (a1 - a0))"
    using calculate_area_first_segment [of v s1 r 0 ss a0 a1 as] by simp
qed

theorem calculate_area_out_of_range_witness:
  "capacity test_reservoir < 1001
   \<and> calculate_area test_reservoir 1001 = Inl (ValueError (Storage_Above_Capacity 1001 1000))
   \<and> (- 10 :: float64) < 0 \<and> 0 \<le> capacity test_reservoir \<and> (0 :: float64) < 500
   \<and> storage_area_curve test_reservoir = (0 # 500 # [800, 1000], 0 # 400 # [600, 900])
   \<and> calculate_area test_reservoir (- 10) = Inr (- 8)"
  using calculate_area_out_of_range [of test_reservoir 1001]
    calculate_area_out_of_range [of test_reservoir "- 10" 500 "[800, 1000]" 0 400 "[600, 900]"]
  by (simp add: test_reservoir_fields test_curve_def float64_arith)

section \<open>The stored volumes and the capacity\<close>

lemma sorted_hd_le_last:
  assumes "sorted_wrt (<) xs" and "xs \<noteq> []" and "hd xs = (0 :: float64)"
  shows "0 \<le> last xs"
proof (cases xs)
  case Nil
  with assms show ?thesis by simp
next
  case (Cons x ys)
  show ?thesis
  proof (cases ys)
    case Nil
    with Cons assms(3) show ?thesis by (simp add: float64_arith)
  next
    case (Cons y zs)
    then have "last xs \<in> set ys" using \<open>xs = x # ys\<close> by simp
    with assms \<open>xs = x # ys\<close> have "0 < last xs" by auto
    then show ?thesis by (rule float64_less_imp_le)
  qed
qed

lemma Reservoir_init_fields:
  assumes "Reservoir_init c e i d = Inr r"
  shows "capacity r = last (fst c)" and "fst c \<noteq> []"
    and "stored_volume r = replicate (length d) (capacity r)"
    and "storage_area_curve r = c"
  using assms by (auto simp add: Reservoir_init_def Let_def split: if_splits)

lemma float64_nonneg_not_NaN: "(0 :: float64) \<le> x \<Longrightarrow> x \<noteq> NaN"
  by (cases x) (simp_all add: float64_arith)

lemma mass_balance_within_capacity:
  assumes "0 \<le> capacity r" and "within_capacity r" and "mass_balance r u week = (r', out)"
  shows "capacity r' = capacity r \<and> within_capacity r'"
proof -
  from mass_balance_shape [of r u week] assms(3)
  consider "r' = r"
    | x where "r' = r\<lparr>stored_volume := (stored_volume r)[nat week := x]\<rparr>"
        "x = NaN \<or> (0 \<le> x \<and> x \<le> capacity r)"
    using assms(1) by auto
  then show ?thesis
  proof cases
    case 1
    with assms show ?thesis by simp
  next
    case 2
    have "set ((stored_volume r)[nat week := x]) \<subseteq> insert x (set (stored_volume r))"
      by (rule set_update_subset_insert)
    with 2 assms(2) show ?thesis
      by (auto simp add: within_capacity_def list_all_iff)
  qed
qed

text \<open>
  A returning call stores NaN exactly when its candidate is NaN, given a capacity of at
  least 0.
\<close>

lemma mass_balance_stores_NaN_iff:
  assumes "mass_balance r u week = (r', Inr out)" and "0 \<le> capacity r"
    and "calculate_area r (stored_volume r ! (nat week - 1)) = Inr area"
  shows "stored_volume r' ! nat week = NaN \<longleftrightarrow>
         stored_volume r ! (nat week - 1) + u + inflow_series r ! nat week
           - evaporation_series r ! nat week * area - demand_series r ! nat week = NaN"
proof -
  from mass_balance_returns [OF assms(1)]
  obtain area' where rng: "1 \<le> week" "nat week < length (evaporation_series r)"
      "nat week < length (inflow_series r)" "nat week < length (demand_series r)"
      "nat week < length (stored_volume r)"
    and "calculate_area r (stored_volume r ! (nat week - 1)) = Inr area'"
    by blast
  define c where "c = stored_volume r ! (nat week - 1) + u
           + inflow_series r ! nat week - evaporation_series r ! nat week * area
           - demand_series r ! nat week"
  note eq = mass_balance_success [OF rng assms(3) c_def]
  have cap: "capacity r \<noteq> NaN" using assms(2) by (rule float64_nonneg_not_NaN)
  have zero: "(0 :: float64) \<noteq> NaN" by (simp add: float64_arith)
  have "stored_volume r' ! nat week = NaN \<longleftrightarrow> c = NaN"
  proof (cases "c > capacity r")
    case True
    then have "c \<noteq> NaN" using float64_less_NaN(1) [of "capacity r"] by auto
    with True eq assms(1) rng(5) cap show ?thesis by auto
  next
    case False
    show ?thesis
    proof (cases "c < 0")
      case True
      then have "c \<noteq> NaN" using float64_less_NaN(2) [of 0] by auto
      with True False eq assms(1) rng(5) zero show ?thesis by auto
    next
      case nonneg: False
      with False eq assms(1) rng(5) show ?thesis by auto
    qed
  qed
  then show ?thesis by (simp add: c_def)
qed

text \<open>
  What every step does to a reservoir carries over to the two loops of the driver and to the
  driver, reservoir by reservoir, whatever the outcome.
\<close>

lemma reservoirs_loop_rel:
  assumes refl: "\<And>r. R r r"
    and step: "\<And>r u r' out. mass_balance r u week = (r', out) \<Longrightarrow> R r r'"
  shows "reservoirs_loop week rs l = (rs', out) \<Longrightarrow> list_all2 R rs rs'"
proof (induction rs arbitrary: l rs' out)
  case Nil
  then show ?case by simp
next
  case (Cons r rs)
  obtain r1 res where mb: "mass_balance r (release l) week = (r1, res)"
    by (cases "mass_balance r (release l) week")
  have r1: "R r r1" using step [OF mb] .
  show ?case
  proof (cases res)
    case (Inl e)
    with Cons.prems mb have "rs' = r1 # rs" by simp
    with r1 refl show ?thesis by (simp add: list_all2_refl)
  next
    case (Inr p)
    obtain rel ud where p: "p = (rel, ud)" by (cases p)
    let ?l = "\<lparr>release = rel, unfulfilled_demand = ud,
               total_unfulfilled_demand = total_unfulfilled_demand l + ud\<rparr>"
    obtain rs1 res1 where rl: "reservoirs_loop week rs ?l = (rs1, res1)"
      by (cases "reservoirs_loop week rs ?l")
    from Cons.prems mb Inr p rl have "rs' = r1 # rs1" by simp
    with r1 Cons.IH [OF rl] show ?thesis by simp
  qed
qed

lemma weeks_loop_rel:
  assumes refl: "\<And>r. R r r"
    and trans: "\<And>a b c. R a b \<Longrightarrow> R b c \<Longrightarrow> R a c"
    and step: "\<And>r u week r' out. mass_balance r u week = (r', out) \<Longrightarrow> R r r'"
  shows "weeks_loop weeks rs l = (rs', out) \<Longrightarrow> list_all2 R rs rs'"
proof (induction weeks arbitrary: rs l)
  case Nil
  then show ?case using refl by (simp add: list_all2_refl)
next
  case (Cons week weeks)
  let ?l0 = "\<lparr>release = 0, unfulfilled_demand = 0, total_unfulfilled_demand = 0\<rparr>"
  obtain rs1 res where rl: "reservoirs_loop week rs ?l0 = (rs1, res)"
    by (cases "reservoirs_loop week rs ?l0")
  have one: "list_all2 R rs rs1"
    using reservoirs_loop_rel [of R week rs ?l0 rs1 res] refl step rl by blast
  show ?case
  proof (cases res)
    case (Inl e)
    with Cons.prems rl have "rs' = rs1" by simp
    with one show ?thesis by simp
  next
    case (Inr l1)
    with Cons.prems rl have "weeks_loop weeks rs1 (Some l1) = (rs', out)" by simp
    from Cons.IH [OF this] have "list_all2 R rs1 rs'" .
    with one show ?thesis
      using trans list_all2_trans [of R R R rs rs1 rs'] by blast
  qed
qed

lemma run_mass_balance_rel:
  assumes refl: "\<And>r. R r r"
    and trans: "\<And>a b c. R a b \<Longrightarrow> R b c \<Longrightarrow> R a c"
    and step: "\<And>r u week r' out. mass_balance r u week = (r', out) \<Longrightarrow> R r r'"
    and run: "run_mass_balance rs n_weeks = (rs', out)"
  shows "list_all2 R rs rs'"
proof -
  obtain rs1 res where wl: "weeks_loop [1..n_weeks - 1] rs None = (rs1, res)"
    by (cases "weeks_loop [1..n_weeks - 1] rs None")
  with run have "rs' = rs1"
    by (auto simp add: run_mass_balance_def split: sum.splits option.splits)
  with weeks_loop_rel [of R "[1..n_weeks - 1]" rs None rs1 res] refl trans step wl
  show ?thesis by blast
qed


lemma run_mass_balance_within_capacity:
  assumes "list_all (\<lambda>r. 0 \<le> capacity r \<and> within_capacity r) rs"
    and "run_mass_balance rs n_weeks = (rs', out)"
  shows "list_all (\<lambda>r. 0 \<le> capacity r \<and> within_capacity r) rs'"
proof -
  let ?P = "\<lambda>r. 0 \<le> capacity r \<and> within_capacity r"
  have "list_all2 (\<lambda>r r'. ?P r \<longrightarrow> ?P r') rs rs'"
    using assms(2)
  proof (rule run_mass_balance_rel [rotated 3])
    fix r u week r' out
    assume "mass_balance r u week = (r', out)"
    then show "?P r \<longrightarrow> ?P r'"
      using mass_balance_within_capacity [of r u week r' out] by auto
  qed auto
  with assms(1) show ?thesis
    by (auto simp add: list_all2_conv_all_nth list_all_length)
qed


lemma two_weeks: "[1..2 - 1] = [1::int]"
  by (simp add: upto_rec1)

lemma test_run_single:
  "run_mass_balance [test_reservoir] 2 =
     ([test_reservoir\<lparr>stored_volume := [1000, 770, 1000]\<rparr>], Inr None)"
proof -
  have "mass_balance test_reservoir 0 1 =
      (test_reservoir\<lparr>stored_volume := [1000, 770, 1000]\<rparr>, Inr (0, 0))"
    using mass_balance_success [of 1 test_reservoir 900 770 0]
    by (simp add: test_reservoir_fields calculate_area_def test_curve_def transposed_def
        float64_arith)
  then show ?thesis by (simp add: run_mass_balance_def two_weeks float64_arith)
qed

lemma flat_mass_balance:
  "mass_balance flat_reservoir 0 1 =
     (flat_reservoir\<lparr>stored_volume := [3, NaN, 3]\<rparr>, Inr (0, 0))"
  using mass_balance_success [of 1 flat_reservoir NaN NaN 0]
  by (simp add: flat_reservoir_fields calculate_area_def flat_curve_def transposed_def
      float64_arith)

lemma test_mass_balance_NaN:
  "mass_balance test_reservoir NaN 1 =
     (test_reservoir\<lparr>stored_volume := [1000, NaN, 1000]\<rparr>, Inr (0, 0))"
  using mass_balance_success [of 1 test_reservoir 900 NaN NaN]
  by (simp add: test_reservoir_fields calculate_area_def test_curve_def transposed_def
      float64_arith)

text \<open>
  Claim C4, amended. With a capacity of at least 0, which a curve that starts at storage 0
  and strictly increases gives, every entry of the stored-volume series is, at all times,
  NaN or a value between 0 and the capacity: the constructor fills the series, index 0
  included, with the capacity; a call of \<^verbatim>\<open>mass_balance\<close> that returns has written a value
  between 0 and the capacity when its candidate is a number, for any upstream release and
  week, and NaN when, and only when, its candidate is NaN; and every call, returning or
  raising, and every run of the driver keep this.
\<close>

theorem stored_volume_within_capacity:
  "(Reservoir_init c e i d = Inr r0 \<and> 0 \<le> capacity r0 \<longrightarrow>
      list_all (\<lambda>x. 0 \<le> x \<and> x \<le> capacity r0) (stored_volume r0) \<and>
      within_capacity r0 \<and> stored_volume r0 = replicate (length d) (capacity r0) \<and>
      (d \<noteq> [] \<longrightarrow> stored_volume r0 ! 0 = capacity r0))
   \<and> (Reservoir_init c e i d = Inr r0 \<and> hd (fst c) = 0 \<and> sorted_wrt (<) (fst c) \<longrightarrow>
      0 \<le> capacity r0)
   \<and> (0 \<le> capacity r \<and> mass_balance r upstream_release week = (r', Inr out) \<longrightarrow>
      stored_volume r' ! nat week = NaN \<or>
      (0 \<le> stored_volume r' ! nat week \<and> stored_volume r' ! nat week \<le> capacity r'))
   \<and> (0 \<le> capacity r \<and> mass_balance r upstream_release week = (r', Inr out) \<and>
      calculate_area r (stored_volume r ! (nat week - 1)) = Inr area \<longrightarrow>
      (stored_volume r' ! nat week = NaN \<longleftrightarrow>
       stored_volume r ! (nat week - 1) + upstream_release + inflow_series r ! nat week
         - evaporation_series r ! nat week * area - demand_series r ! nat week = NaN))
   \<and> (0 \<le> capacity r \<and> within_capacity r \<and>
      mass_balance r upstream_release week = (r', res) \<longrightarrow>
      0 \<le> capacity r' \<and> within_capacity r')
   \<and> (list_all (\<lambda>r. 0 \<le> capacity r \<and> within_capacity r) rs \<and>
      run_mass_balance rs n_weeks = (rs', report) \<longrightarrow>
      list_all (\<lambda>r. 0 \<le> capacity r \<and> within_capacity r) rs')"
proof (intro conjI impI)
  assume a: "Reservoir_init c e i d = Inr r0 \<and> 0 \<le> capacity r0"
  then have sv: "stored_volume r0 = replicate (length d) (capacity r0)"
    using Reservoir_init_fields(3) [of c e i d r0] by simp
  show "stored_volume r0 = replicate (length d) (capacity r0)" by (rule sv)
  from a sv show all: "list_all (\<lambda>x. 0 \<le> x \<and> x \<le> capacity r0) (stored_volume r0)"
    by (simp add: list_all_iff float64_le_refl)
  then show "within_capacity r0"
    by (simp add: within_capacity_def list_all_iff)
  assume "d \<noteq> []"
  with sv show "stored_volume r0 ! 0 = capacity r0" by simp
next
  assume a: "Reservoir_init c e i d = Inr r0 \<and> hd (fst c) = 0 \<and> sorted_wrt (<) (fst c)"
  then have "capacity r0 = last (fst c)" and "fst c \<noteq> []"
    using Reservoir_init_fields(1,2) [of c e i d r0] by simp_all
  with a show "0 \<le> capacity r0"
    using sorted_hd_le_last [of "fst c"] by simp
next
  assume a: "0 \<le> capacity r \<and> mass_balance r upstream_release week = (r', Inr out)"
  then have "capacity r' = capacity r"
    using mass_balance_capacity [of r upstream_release week r' "Inr out"] by simp
  with a show "stored_volume r' ! nat week = NaN \<or>
      (0 \<le> stored_volume r' ! nat week \<and> stored_volume r' ! nat week \<le> capacity r')"
    using mass_balance_clamped [of r upstream_release week r' out] by simp
next
  assume "0 \<le> capacity r \<and> mass_balance r upstream_release week = (r', Inr out) \<and>
      calculate_area r (stored_volume r ! (nat week - 1)) = Inr area"
  then show "stored_volume r' ! nat week = NaN \<longleftrightarrow>
       stored_volume r ! (nat week - 1) + upstream_release + inflow_series r ! nat week
         - evaporation_series r ! nat week * area - demand_series r ! nat week = NaN"
    using mass_balance_stores_NaN_iff [of r upstream_release week r' out area] by simp
next
  assume a: "0 \<le> capacity r \<and> within_capacity r \<and>
      mass_balance r upstream_release week = (r', res)"
  then show "0 \<le> capacity r'" and "within_capacity r'"
    using mass_balance_within_capacity [of r upstream_release week r' res] by simp_all
next
  assume "list_all (\<lambda>r. 0 \<le> capacity r \<and> within_capacity r) rs \<and>
      run_mass_balance rs n_weeks = (rs', report)"
  then show "list_all (\<lambda>r. 0 \<le> capacity r \<and> within_capacity r) rs'"
    using run_mass_balance_within_capacity [of rs n_weeks rs' report] by simp
qed

theorem stored_volume_within_capacity_witness:
  "Reservoir_init test_curve [1 / 20, 1 / 20, 1 / 20] [15, 15, 400] [200, 200, 200]
     = Inr test_reservoir
   \<and> 0 \<le> capacity test_reservoir
   \<and> hd (fst test_curve) = 0 \<and> sorted_wrt (<) (fst test_curve)
   \<and> within_capacity test_reservoir
   \<and> stored_volume test_reservoir ! 0 = capacity test_reservoir
   \<and> calculate_area test_reservoir (stored_volume test_reservoir ! (nat 1 - 1)) = Inr 900
   \<and> mass_balance test_reservoir 100 1 =
       (test_reservoir\<lparr>stored_volume := [1000, 870, 1000]\<rparr>, Inr (0, 0))
   \<and> stored_volume (test_reservoir\<lparr>stored_volume := [1000, 870, 1000]\<rparr>) ! nat 1 \<noteq> NaN
   \<and> within_capacity (test_reservoir\<lparr>stored_volume := [1000, 870, 1000]\<rparr>)
   \<and> list_all (\<lambda>r. 0 \<le> capacity r \<and> within_capacity r) [test_reservoir]
   \<and> run_mass_balance [test_reservoir] 2 =
       ([test_reservoir\<lparr>stored_volume := [1000, 770, 1000]\<rparr>], Inr None)
   \<and> list_all (\<lambda>r. 0 \<le> capacity r \<and> within_capacity r)
       [test_reservoir\<lparr>stored_volume := [1000, 770, 1000]\<rparr>]"
  using stored_volume_within_capacity
    [of test_curve "[1 / 20, 1 / 20, 1 / 20]" "[15, 15, 400]" "[200, 200, 200]"
        test_reservoir test_reservoir 100 1
        "test_reservoir\<lparr>stored_volume := [1000, 870, 1000]\<rparr>" "(0, 0)" 900 "Inr (0, 0)"
        "[test_reservoir]" 2 "[test_reservoir\<lparr>stored_volume := [1000, 770, 1000]\<rparr>]"
        "Inr None"]
    test_reservoir_constructed test_mass_balance_week_1 test_run_single
  by (simp add: test_reservoir_fields test_curve_def within_capacity_def
      calculate_area_def transposed_def float64_arith)

text \<open>
  Claim C4 as stated, with every stored volume between 0 and the capacity after any call
  that returns, fails where the candidate is NaN: neither comparison of the clamp holds
  for NaN, so it is stored as it is and \<open>(0, 0)\<close> is returned. On the reservoir that the
  constructor builds from the curve with storages 5, 5, 3, of capacity 3, the lookup at
  the stored volume 3 divides by 5 - 5 and returns NaN, and week 1 stores NaN. On the test
  reservoir the same happens when the upstream release is NaN.
\<close>

theorem mass_balance_stores_nan:
  "Reservoir_init flat_curve [1 / 20, 1 / 20, 1 / 20] [15, 15, 400] [200, 200, 200]
     = Inr flat_reservoir
   \<and> 0 \<le> capacity flat_reservoir
   \<and> stored_volume flat_reservoir = [3, 3, 3]
   \<and> calculate_area flat_reservoir 3 = Inr NaN
   \<and> mass_balance flat_reservoir 0 1 =
       (flat_reservoir\<lparr>stored_volume := [3, NaN, 3]\<rparr>, Inr (0, 0))
   \<and> \<not> (0 \<le> stored_volume (flat_reservoir\<lparr>stored_volume := [3, NaN, 3]\<rparr>) ! 1)
   \<and> 0 \<le> capacity test_reservoir
   \<and> mass_balance test_reservoir NaN 1 =
       (test_reservoir\<lparr>stored_volume := [1000, NaN, 1000]\<rparr>, Inr (0, 0))
   \<and> \<not> (0 \<le> stored_volume (test_reservoir\<lparr>stored_volume := [1000, NaN, 1000]\<rparr>) ! 1)"
  using flat_reservoir_constructed flat_mass_balance test_mass_balance_NaN flat_area
  by (simp add: flat_reservoir_fields test_reservoir_fields float64_arith)

section \<open>The chain driver: order of the calls and the report\<close>





text \<open>
  Claim C5. The driver is to report the last week's unfulfilled demand summed over all
  reservoirs of the chain. The code accumulates that sum in \<^verbatim>\<open>total_unfulfilled_demand\<close>
  and then tests and prints \<^verbatim>\<open>unfulfilled_demand\<close>, the value of the last reservoir
  alone. On the chain of the two reservoirs that are short of 50 and of 30, run for two weeks,
  the sum after week 1 is 80 and the line
  printed says 30.
\<close>

theorem run_mass_balance_reports_last_reservoir:
  "weeks_loop [1]
      [test_reservoir\<lparr>demand_series := [200, 1020, 200]\<rparr>,
       test_reservoir\<lparr>demand_series := [200, 1000, 200]\<rparr>] None =
     ([test_reservoir\<lparr>demand_series := [200, 1020, 200], stored_volume := [1000, 0, 1000]\<rparr>,
       test_reservoir\<lparr>demand_series := [200, 1000, 200], stored_volume := [1000, 0, 1000]\<rparr>],
      Inr (Some \<lparr>release = 0, unfulfilled_demand = 30, total_unfulfilled_demand = 80\<rparr>))
   \<and> run_mass_balance
      [test_reservoir\<lparr>demand_series := [200, 1020, 200]\<rparr>,
       test_reservoir\<lparr>demand_series := [200, 1000, 200]\<rparr>] 2 =
     ([test_reservoir\<lparr>demand_series := [200, 1020, 200], stored_volume := [1000, 0, 1000]\<rparr>,
       test_reservoir\<lparr>demand_series := [200, 1000, 200], stored_volume := [1000, 0, 1000]\<rparr>],
      Inr (Some 30))"
  using dry_chain_steps
  by (simp add: run_mass_balance_def two_weeks float64_arith)



end
